theory Spec2Isabelle
  imports Main
begin

section \<open>Strings and arrays of the JavaScript runtime\<close>

text \<open>
  A JavaScript string is modelled as a \<open>string\<close>, one \<open>char\<close> per code unit (exact for
  ASCII text, which is what the regular expressions and separators of \<open>output.js\<close> inspect).
  \<open>undefined\<close> properties that the source reads through lodash \<open>get\<close> with a default are
  modelled as \<open>option\<close> fields.
\<close>

text \<open>The character classes \<open>\w\<close> and \<open>\d\<close> of a regular expression without the unicode flag.\<close>

definition is_word_char :: "char \<Rightarrow> bool" where
  "is_word_char c =
     (c \<in> set ''abcdefghijklmnopqrstuvwxyzABCDEFGHIJKLMNOPQRSTUVWXYZ0123456789_'')"

definition is_digit_char :: "char \<Rightarrow> bool" where
  "is_digit_char c = (c \<in> set ''0123456789'')"

text \<open>\<open>s.split(c)\<close> for a one-character separator: never empty, \<open>''.split('/') = ['']\<close>.\<close>

fun split_on :: "char \<Rightarrow> string \<Rightarrow> string list" where
  "split_on c [] = [[]]"
| "split_on c (x # xs) =
     (if x = c then [] # split_on c xs
      else (case split_on c xs of
              [] \<Rightarrow> [[x]]
            | piece # pieces \<Rightarrow> (x # piece) # pieces))"

text \<open>\<open>xs.join(sep)\<close> on an array of strings.\<close>

fun join_with :: "string \<Rightarrow> string list \<Rightarrow> string" where
  "join_with sep [] = []"
| "join_with sep [x] = x"
| "join_with sep (x # y # ys) = x @ sep @ join_with sep (y # ys)"

text \<open>\<open>xs[i]\<close>: \<open>undefined\<close> (here \<open>None\<close>) out of range.\<close>

fun nth_opt :: "'a list \<Rightarrow> nat \<Rightarrow> 'a option" where
  "nth_opt [] i = None"
| "nth_opt (x # xs) 0 = Some x"
| "nth_opt (x # xs) (Suc i) = nth_opt xs i"

text \<open>\<open>s.includes(p)\<close>.\<close>

fun starts_with :: "string \<Rightarrow> string \<Rightarrow> bool" where
  "starts_with [] s = True"
| "starts_with (p # ps) [] = False"
| "starts_with (p # ps) (x # xs) = (p = x \<and> starts_with ps xs)"

fun string_includes :: "string \<Rightarrow> string \<Rightarrow> bool" where
  "string_includes p [] = (p = [])"
| "string_includes p (x # xs) = (starts_with p (x # xs) \<or> string_includes p xs)"

text \<open>\<open>s.trim()\<close>, on the ASCII white space and line terminators.\<close>

definition is_space :: "char \<Rightarrow> bool" where
  "is_space c = (c \<in> set [CHR '' '', CHR 0x09, CHR 0x0A, CHR 0x0B, CHR 0x0C, CHR 0x0D])"

definition trim :: "string \<Rightarrow> string" where
  "trim s = rev (dropWhile is_space (rev (dropWhile is_space s)))"

text \<open>The decimal rendering of a non-negative integer in a template literal.\<close>

definition digit_char :: "nat \<Rightarrow> char" where
  "digit_char d = ''0123456789'' ! (d mod 10)"

fun show_nat :: "nat \<Rightarrow> string" where
  "show_nat n = (if n < 10 then [digit_char n] else show_nat (n div 10) @ [digit_char (n mod 10)])"

declare show_nat.simps [simp del]

text \<open>
  \<open>url.replace(/(^\w+:|^)\/\//, '')\<close>: the expression is anchored at the start and has no
  global flag, so it removes at most one prefix: a run of word characters followed by
  \<open>://\<close>, or else a leading \<open>//\<close>.
\<close>

definition strip_protocol :: "string \<Rightarrow> string" where
  "strip_protocol u =
     (let w = takeWhile is_word_char u; r = dropWhile is_word_char u in
      if w \<noteq> [] \<and> take 3 r = ''://'' then drop 3 r
      else if take 2 u = ''//'' then drop 2 u
      else u)"

text \<open>
  \<open>fileName.match(/lhr-\d+\.json/g)\<close>: the leftmost occurrence of \<open>lhr-\<close>, digits and
  \<open>.json\<close>, if any (element 0 of the array of matches).
\<close>

definition lhr_match_here :: "string \<Rightarrow> string option" where
  "lhr_match_here s =
     (if starts_with ''lhr-'' s then
        (let r = drop 4 s; ds = takeWhile is_digit_char r; r' = dropWhile is_digit_char r in
         if ds \<noteq> [] \<and> starts_with ''.json'' r' then Some (''lhr-'' @ ds @ ''.json'') else None)
      else None)"

fun lhr_first_match :: "string \<Rightarrow> string option" where
  "lhr_first_match [] = None"
| "lhr_first_match (x # xs) =
     (case lhr_match_here (x # xs) of
        Some m \<Rightarrow> Some m
      | None \<Rightarrow> lhr_first_match xs)"

section \<open>Data model of \<open>output.js\<close>\<close>

datatype error = FsError | JsonSyntaxError | TypeError | RequestError

record ChangesURL =
  sha :: string
  pullRequest :: string

text \<open>A \<open>Gist\<close> is either the empty object \<open>{}\<close> or \<open>{url, id, sha}\<close>; \<open>id\<close> is an array.\<close>

datatype Gist = EmptyGist | GistRef (gist_url: string) (gist_id: "string list") (gist_sha: string)

record LHResult =
  auditId :: string
  auditProperty :: string
  auditTitle :: string
  expected :: string
  operator :: string
  actual :: string
  url :: string

text \<open>The object \<open>groupBy\<close> returns, as its keys and groups in creation order.\<close>

type_synonym LHResultsByURL = "(string \<times> LHResult list) list"

text \<open>A parsed JSON document; a number keeps its literal.\<close>

datatype json =
    JNull
  | JBool bool
  | JNumber string
  | JString string
  | JArray "json list"
  | JObject "(string \<times> json) list"

text \<open>
  The attachments pushed by \<open>formatAssertResults\<close> and sent by \<open>slackNotification\<close>: the
  header, the section of a group (\<open>text\<close>, \<open>color\<close>, \<open>fields\<close>), its report-link block
  (\<open>title\<close>, \<open>title_link\<close>, \<open>color\<close>) or the empty object \<open>{}\<close>. A field is
  \<open>{title, value}\<close>.
\<close>

record field =
  title :: string
  value' :: string

datatype attachment =
    Header (pretext: string) (header_title: string) (header_color: string)
  | Section (section_text: string) (section_color: string) (section_fields: "field list")
  | ReportUrlField (link_title: string) (title_link: string) (link_color: string)
  | EmptyObject

text \<open>
  What the GitHub API returns, as far as the source reads it: of a listed gist its \<open>id\<close> and
  the keys of its \<open>files\<close>; of the response to an update or a create \<open>data.id\<close> and the
  \<open>version\<close> of each entry of \<open>data.history\<close>; of a pull request \<open>head.sha\<close> and
  \<open>html_url\<close>. The record \<open>check_body\<close> is the argument of \<open>checks.create\<close>.
\<close>

record gist_entry =
  entry_id :: string
  files :: "string list"

record history_entry =
  version :: "string option"

record gist_response =
  data_id :: "string option"
  data_history :: "history_entry list"

record pull =
  head_sha :: string
  html_url :: "string option"

record check_body =
  owner :: "string option"
  repo :: "string option"
  check_head_sha :: string
  name :: string
  check_status :: string
  conclusion :: string
  output_title :: string
  output_summary :: string

text \<open>
  The configuration that \<open>run\<close> reads from the module \<open>./input\<close>, taken as a parameter: its
  two switches are booleans, under the names \<open>run\<close> binds them to; an absent token or URL is
  the empty string (both are falsy).
\<close>

record input =
  slackWebhookUrl :: string
  applicationGithubToken :: string
  personalGithubToken :: string
  githubNotificationEnabled :: bool
  slackNotificationEnabled :: bool
  logLevel :: string

section \<open>Effects\<close>

text \<open>
  Every call that leaves the module: the file system (with the path), the content store
  (\<open>list\<close> with the token; \<open>update\<close> with the token, the \<open>gist_id\<close>, the file name and its
  content; \<open>create\<close> with the token, the file name and its content), the pull-request listing
  (token, owner, repo) and the two notification channels (the webhook URL and the
  attachments; the token, owner, repo and commit of the check suite; the token and the body
  of the check run). Console output is not recorded.
\<close>

datatype call =
    ExistsSync string
  | ReadFile string
  | ReaddirSync string
  | GistsList string
  | GistsUpdate string string string string
  | GistsCreate string string string
  | PullsList string "string option" "string option"
  | WebhookSend string "attachment list"
  | ChecksCreateSuite string "string option" "string option" string
  | ChecksCreate string check_body

text \<open>
  The world the module runs in: the environment variables, the working directory, and
  what each external call answers during the run at hand (the uploads of a run start
  together, so each of them sees the same listing of the content store). \<open>JSON.parse\<close> is
  taken at the two types the source annotates: \<open>LHResult[]\<close> for the assertion results, any
  document for a raw result.
\<close>

record world =
  githubRepo :: string
  githubSHA :: string
  cwd :: string
  existsSync :: "string \<Rightarrow> bool"
  readFile :: "string \<Rightarrow> error + string"
  readdirSync :: "string \<Rightarrow> error + string list"
  parse_results :: "string \<Rightarrow> error + LHResult list"
  parse_json :: "string \<Rightarrow> error + json"
  gists_list :: "string \<Rightarrow> error + gist_entry list"
  gists_update :: "string \<Rightarrow> string \<Rightarrow> string \<Rightarrow> string \<Rightarrow> error + gist_response"
  gists_create :: "string \<Rightarrow> string \<Rightarrow> string \<Rightarrow> error + gist_response"
  pulls_list :: "string \<Rightarrow> string option \<Rightarrow> string option \<Rightarrow> error + pull list"
  webhook_send :: "string \<Rightarrow> attachment list \<Rightarrow> error + unit"
  checks_createSuite :: "string \<Rightarrow> string option \<Rightarrow> string option \<Rightarrow> string \<Rightarrow> error + unit"
  checks_create :: "string \<Rightarrow> check_body \<Rightarrow> error + unit"

text \<open>
  A promise that has settled: the calls made, and the rejection (\<open>Inl\<close>) or the value.
  A synchronous \<open>throw\<close> inside \<open>run\<close>'s \<open>try\<close> block is a rejection of \<open>run\<close> as well.
\<close>

type_synonym 'a promise = "call list \<times> (error + 'a)"

definition resolve :: "'a \<Rightarrow> 'a promise" where
  "resolve x = ([], Inr x)"

definition perform :: "call \<Rightarrow> error + 'a \<Rightarrow> 'a promise" where
  "perform c answer = ([c], answer)"

definition pure_step :: "error + 'a \<Rightarrow> 'a promise" where
  "pure_step r = ([], r)"

text \<open>\<open>await m\<close>, then the rest of the function body.\<close>

definition await :: "'a promise \<Rightarrow> ('a \<Rightarrow> 'b promise) \<Rightarrow> 'b promise" where
  "await m rest =
     (case m of
        (t, Inl e) \<Rightarrow> (t, Inl e)
      | (t, Inr x) \<Rightarrow> (case rest x of (t', r) \<Rightarrow> (t @ t', r)))"

text \<open>
  \<open>Promise.all\<close>: every member runs to its end, so all their calls are made; the result is
  the list of values, or a rejection when a member rejects. JavaScript reports the rejection
  that happens first in time, the model the first in argument order.
\<close>

fun promise_all :: "'a promise list \<Rightarrow> 'a list promise" where
  "promise_all [] = ([], Inr [])"
| "promise_all (m # ms) =
     (case promise_all ms of
        (ts, rs) \<Rightarrow>
          (fst m @ ts,
           case snd m of
             Inl e \<Rightarrow> Inl e
           | Inr x \<Rightarrow> (case rs of Inl e \<Rightarrow> Inl e | Inr xs \<Rightarrow> Inr (x # xs))))"

section \<open>The module\<close>

subsection \<open>Constants\<close>

text \<open>\<open>path.join\<close> of a normalised directory and a plain file name.\<close>

definition path_join :: "string \<Rightarrow> string \<Rightarrow> string" where
  "path_join dir file = dir @ ''/'' @ file"

definition reportTitle :: string where
  "reportTitle = ''Lighthouse Report''"

definition resultsDirPath :: "world \<Rightarrow> string" where
  "resultsDirPath w = path_join (cwd w) ''.lighthouseci''"

definition lhAssertResultsPath :: "world \<Rightarrow> string" where
  "lhAssertResultsPath w = path_join (resultsDirPath w) ''assertion-results.json''"

definition pReadFile :: "world \<Rightarrow> string \<Rightarrow> string promise" where
  "pReadFile w path = perform (ReadFile path) (readFile w path)"

subsection \<open>\<open>getGroupedAssertionResultsByURL\<close>\<close>

text \<open>
  lodash \<open>groupBy(results, 'url')\<close>: a result joins the group of its \<open>url\<close>, a new key is
  created behind the existing ones.
\<close>

definition groupBy_step :: "LHResultsByURL \<Rightarrow> LHResult \<Rightarrow> LHResultsByURL" where
  "groupBy_step acc r =
     (case map_of acc (url r) of
        None \<Rightarrow> acc @ [(url r, [r])]
      | Some _ \<Rightarrow> map (\<lambda>(k, g). if k = url r then (k, g @ [r]) else (k, g)) acc)"

definition groupBy :: "LHResult list \<Rightarrow> LHResultsByURL" where
  "groupBy rs = foldl groupBy_step [] rs"

text \<open>
  \<open>Object.values\<close>: the values of the keys that are array indices (canonical decimal
  numerals below \<open>2^32 - 1\<close>) in ascending order, then the others in creation order.
\<close>

definition digit_value :: "char \<Rightarrow> nat" where
  "digit_value c = length (takeWhile (\<lambda>d. d \<noteq> c) ''0123456789'')"

fun decimal_value :: "string \<Rightarrow> nat \<Rightarrow> nat" where
  "decimal_value [] acc = acc"
| "decimal_value (c # cs) acc = decimal_value cs (10 * acc + digit_value c)"

definition is_array_index :: "string \<Rightarrow> bool" where
  "is_array_index k =
     (k \<noteq> [] \<and> list_all is_digit_char k \<and> (k = ''0'' \<or> hd k \<noteq> CHR ''0'')
      \<and> decimal_value k 0 < 4294967295)"

definition object_values :: "(string \<times> 'a) list \<Rightarrow> 'a list" where
  "object_values kvs =
     map snd (sort_key (\<lambda>kv. decimal_value (fst kv) 0) (filter (\<lambda>kv. is_array_index (fst kv)) kvs))
     @ map snd (filter (\<lambda>kv. \<not> is_array_index (fst kv)) kvs)"

definition getGroupedAssertionResultsByURL :: "world \<Rightarrow> LHResultsByURL promise" where
  "getGroupedAssertionResultsByURL w =
     (if \<not> existsSync w (lhAssertResultsPath w)
      then perform (ExistsSync (lhAssertResultsPath w)) (Inr [])
      else
        await (perform (ExistsSync (lhAssertResultsPath w)) (Inr ())) (\<lambda>_.
        await (pReadFile w (lhAssertResultsPath w)) (\<lambda>assertionResultsBuffer.
        await (pure_step (parse_results w assertionResultsBuffer)) (\<lambda>assertionResults.
        resolve (groupBy assertionResults)))))"

subsection \<open>\<open>getLHRNameFromPath\<close>\<close>

text \<open>
  The directory listing is the argument; an array is truthy, so the alternative
  \<open>|| ['']\<close> of the source is never taken.
\<close>

definition getLHRNameFromPath :: "string list \<Rightarrow> string list" where
  "getLHRNameFromPath dir =
     map (\<lambda>fileName. case lhr_first_match fileName of Some m \<Rightarrow> m | None \<Rightarrow> [])
       (filter (\<lambda>fileName. lhr_first_match fileName \<noteq> None) dir)"

subsection \<open>\<open>uploadResultToGist\<close> and \<open>uploadResultsToGist\<close>\<close>

text \<open>
  \<open>get(results, 'requestedUrl', '')\<close>: the default stands in for \<open>undefined\<close> only, so a
  member that is present is returned whatever it is (a later duplicate member wins, as in
  \<open>JSON.parse\<close>).
\<close>

definition get_requestedUrl :: "json \<Rightarrow> json" where
  "get_requestedUrl results =
     (case results of
        JObject members \<Rightarrow>
          (case map_of (rev members) ''requestedUrl'' of
             None \<Rightarrow> JString []
           | Some v \<Rightarrow> v)
      | _ \<Rightarrow> JString [])"

text \<open>\<open>url.replace(...)\<close> is a \<open>TypeError\<close> unless \<open>url\<close> is a string.\<close>

definition string_receiver :: "json \<Rightarrow> error + string" where
  "string_receiver v = (case v of JString s \<Rightarrow> Inr s | _ \<Rightarrow> Inl TypeError)"

definition gistName :: "string \<Rightarrow> string \<Rightarrow> string" where
  "gistName repository u =
     ''lhci-action-lhr-'' @ join_with ''-'' (split_on CHR ''/'' repository) @ ''-''
       @ join_with ''-'' (split_on CHR ''/'' (strip_protocol u)) @ ''.json''"

definition existingGist :: "string \<Rightarrow> gist_entry list \<Rightarrow> gist_entry option" where
  "existingGist gist_name gists =
     find (\<lambda>gist. length (filter (\<lambda>filename. filename = gist_name) (files gist)) \<noteq> 0) gists"

definition uploadResultToGist :: "world \<Rightarrow> string \<Rightarrow> string \<Rightarrow> Gist promise" where
  "uploadResultToGist w githubToken resultPath =
     (if githubToken = [] \<or> resultPath = [] then resolve EmptyGist
      else
        await (pReadFile w (path_join (resultsDirPath w) resultPath)) (\<lambda>resultsBuffer.
        await (pure_step (parse_json w resultsBuffer)) (\<lambda>results.
        await (pure_step (string_receiver (get_requestedUrl results))) (\<lambda>u.
        await (perform (GistsList githubToken) (gists_list w githubToken)) (\<lambda>gists.
        await
          (case existingGist (gistName (githubRepo w) u) gists of
             Some existing \<Rightarrow>
               perform
                 (GistsUpdate githubToken (entry_id existing) (gistName (githubRepo w) u) resultsBuffer)
                 (gists_update w githubToken (entry_id existing) (gistName (githubRepo w) u) resultsBuffer)
           | None \<Rightarrow>
               perform
                 (GistsCreate githubToken (gistName (githubRepo w) u) resultsBuffer)
                 (gists_create w githubToken (gistName (githubRepo w) u) resultsBuffer))
          (\<lambda>gist.
        resolve
          (GistRef u
             (split_on CHR ''/'' (case data_id gist of None \<Rightarrow> [] | Some i \<Rightarrow> i))
             (case data_history gist of
                [] \<Rightarrow> []
              | h # _ \<Rightarrow> (case version h of None \<Rightarrow> [] | Some v \<Rightarrow> v)))))))))"

definition uploadResultsToGist :: "world \<Rightarrow> string \<Rightarrow> Gist list promise" where
  "uploadResultsToGist w githubToken =
     (if githubToken = [] then resolve [EmptyGist]
      else
        await (perform (ReaddirSync (resultsDirPath w)) (readdirSync w (resultsDirPath w))) (\<lambda>dir.
        promise_all
          (map (\<lambda>LHRNameFromPath. uploadResultToGist w githubToken LHRNameFromPath)
             (getLHRNameFromPath dir))))"

subsection \<open>\<open>getChangesUrl\<close>\<close>

definition shaChangesURL :: "world \<Rightarrow> string" where
  "shaChangesURL w = join_with ''/'' [''https://github.com'', githubRepo w, ''commit'', githubSHA w]"

definition getChangesUrl :: "world \<Rightarrow> string \<Rightarrow> ChangesURL promise" where
  "getChangesUrl w githubToken =
     (if githubToken = [] then resolve \<lparr>sha = shaChangesURL w, pullRequest = []\<rparr>
      else
        await
          (perform
             (PullsList githubToken (nth_opt (split_on CHR ''/'' (githubRepo w)) 0)
                (nth_opt (split_on CHR ''/'' (githubRepo w)) 1))
             (pulls_list w githubToken (nth_opt (split_on CHR ''/'' (githubRepo w)) 0)
                (nth_opt (split_on CHR ''/'' (githubRepo w)) 1)))
          (\<lambda>pulls.
        resolve
          \<lparr>sha = shaChangesURL w,
           pullRequest =
             (case find (\<lambda>p. head_sha p = githubSHA w) pulls of
                None \<Rightarrow> []
              | Some p \<Rightarrow> (case html_url p of None \<Rightarrow> [] | Some link \<Rightarrow> link))\<rparr>))"

subsection \<open>\<open>formatAssertResults\<close> and \<open>getLHReportURL\<close>\<close>

definition statusColor :: "int \<Rightarrow> string" where
  "statusColor status = (if status = 0 then ''good'' else ''danger'')"

definition statusConclusion :: "int \<Rightarrow> string" where
  "statusConclusion status = (if status = 0 then ''success'' else ''failure'')"

text \<open>\<open>isEmpty(gist) ? '' : `...?gist=${gist.id}/${gist.sha}`\<close>; an array in a template
  literal is its elements joined by commas.\<close>

definition getLHReportURL :: "Gist \<Rightarrow> string" where
  "getLHReportURL gist =
     (case gist of
        EmptyGist \<Rightarrow> []
      | GistRef u i s \<Rightarrow>
          ''https://googlechrome.github.io/lighthouse/viewer/?gist='' @ join_with '','' i @ ''/'' @ s)"

text \<open>\<open>get(head(groupedResult), 'url', '')\<close>.\<close>

definition resultUrl :: "LHResult list \<Rightarrow> string" where
  "resultUrl groupedResult = (case groupedResult of [] \<Rightarrow> [] | res # _ \<Rightarrow> url res)"

text \<open>\<open>find(gists, ({ url }) => url === resultUrl) || {}\<close>: the empty object has no \<open>url\<close>.\<close>

definition gistFor :: "Gist list \<Rightarrow> string \<Rightarrow> Gist" where
  "gistFor gists u =
     (case find (\<lambda>g. case g of EmptyGist \<Rightarrow> False | GistRef gu _ _ \<Rightarrow> gu = u) gists of
        None \<Rightarrow> EmptyGist
      | Some g \<Rightarrow> g)"

definition resultField :: "LHResult \<Rightarrow> field" where
  "resultField res =
     \<lparr>title = auditId res @ ''.'' @ auditProperty res,
      value' = auditTitle res @ '' \<newline> _Expected '' @ expected res @ '' ''
        @ (if operator res = ''<='' then '' less then'' else '' greater than'')
        @ '' actual '' @ actual res @ ''_''\<rparr>"

definition ellipsisField :: field where
  "ellipsisField = \<lparr>title = ''...'', value' = []\<rparr>"

definition groupFields :: "LHResult list \<Rightarrow> field list" where
  "groupFields groupedResult =
     (let fs = take 2 (map resultField groupedResult) in
      if length fs > 0 then fs @ [ellipsisField] else fs)"

definition reportUrlField :: "string \<Rightarrow> string \<Rightarrow> attachment" where
  "reportUrlField color reportURL =
     (if reportURL \<noteq> [] then ReportUrlField ''View Detailed Lighthouse Report'' reportURL color
      else EmptyObject)"

text \<open>The two objects the reducer pushes for one group, then the reducer itself.\<close>

definition groupSection :: "int \<Rightarrow> LHResult list \<Rightarrow> attachment" where
  "groupSection status groupedResult =
     Section
       (show_nat (length groupedResult + 1) @ '' result(s) for '' @ resultUrl groupedResult)
       (statusColor status)
       (groupFields groupedResult)"

definition groupReportUrlField :: "int \<Rightarrow> Gist list \<Rightarrow> LHResult list \<Rightarrow> attachment" where
  "groupReportUrlField status gists groupedResult =
     reportUrlField (statusColor status)
       (getLHReportURL (gistFor gists (resultUrl groupedResult)))"

definition formatAssertResults :: "LHResult list list \<Rightarrow> int \<Rightarrow> Gist list \<Rightarrow> attachment list" where
  "formatAssertResults groups status gists =
     foldl
       (\<lambda>acc groupedResult.
          (acc @ [groupSection status groupedResult])
          @ [groupReportUrlField status gists groupedResult])
       [] groups"

subsection \<open>\<open>getSummaryMarkdownOutput\<close>\<close>

definition fieldsTemplate :: "attachment \<Rightarrow> string" where
  "fieldsTemplate a =
     (case a of
        Section _ _ fs \<Rightarrow>
          join_with ''\<newline>'' (map (\<lambda>f. trim (''**'' @ title f @ ''**\<newline>'' @ value' f)) fs)
      | ReportUrlField t link _ \<Rightarrow>
          (if link \<noteq> [] then ''['' @ t @ '']('' @ link @ '')'' else ''\<newline>'')
      | _ \<Rightarrow> ''\<newline>'')"

definition resultTitle :: "attachment \<Rightarrow> string" where
  "resultTitle a =
     (case a of
        Section t _ _ \<Rightarrow> (if t \<noteq> [] then ''### '' @ t else [])
      | _ \<Rightarrow> [])"

definition summaryResultsTempalte :: "attachment list \<Rightarrow> string" where
  "summaryResultsTempalte summaryResults =
     join_with ''\<newline>''
       (map (\<lambda>result. trim (resultTitle result @ ''\<newline>'' @ fieldsTemplate result)) summaryResults)"

definition getSummaryMarkdownOutput ::
  "int \<Rightarrow> ChangesURL \<Rightarrow> LHResultsByURL \<Rightarrow> Gist list \<Rightarrow> string \<times> string" where
  "getSummaryMarkdownOutput status changesURL groupedResults gists =
     ((if pullRequest changesURL \<noteq> [] then ''Pull Request '' @ statusConclusion status
       else ''Changes '' @ statusConclusion status),
      ''\<newline>''
        @ (if pullRequest changesURL \<noteq> []
           then ''[View on GitHub]('' @ pullRequest changesURL @ '')''
           else ''[View SHA Changes]('' @ sha changesURL @ '')'')
        @ ''\<newline>\<newline>''
        @ summaryResultsTempalte (formatAssertResults (object_values groupedResults) status gists)
        @ ''\<newline>'')"

subsection \<open>The two channels\<close>

definition slackAttachments ::
  "int \<Rightarrow> ChangesURL \<Rightarrow> LHResultsByURL \<Rightarrow> Gist list \<Rightarrow> attachment list" where
  "slackAttachments status changesURL groupedResults gists =
     Header (''GitHub Actions / '' @ reportTitle)
       (if pullRequest changesURL \<noteq> []
        then ''Pull Request '' @ statusConclusion status @ '' - <'' @ pullRequest changesURL
               @ '' | View on GitHub>''
        else ''Changes '' @ statusConclusion status @ '' - <'' @ sha changesURL
               @ '' | View SHA Changes>'')
       (statusColor status)
     # formatAssertResults (object_values groupedResults) status gists"

definition slackNotification ::
  "world \<Rightarrow> int \<Rightarrow> string \<Rightarrow> ChangesURL \<Rightarrow> LHResultsByURL \<Rightarrow> Gist list \<Rightarrow> unit promise" where
  "slackNotification w status webhookUrl changesURL groupedResults gists =
     perform (WebhookSend webhookUrl (slackAttachments status changesURL groupedResults gists))
       (webhook_send w webhookUrl (slackAttachments status changesURL groupedResults gists))"

definition checkBody ::
  "world \<Rightarrow> int \<Rightarrow> ChangesURL \<Rightarrow> LHResultsByURL \<Rightarrow> Gist list \<Rightarrow> check_body" where
  "checkBody w status changesURL groupedResults gists =
     \<lparr>owner = nth_opt (split_on CHR ''/'' (githubRepo w)) 0,
      repo = nth_opt (split_on CHR ''/'' (githubRepo w)) 1,
      check_head_sha = githubSHA w,
      name = reportTitle,
      check_status = ''completed'',
      conclusion = statusConclusion status,
      output_title = fst (getSummaryMarkdownOutput status changesURL groupedResults gists),
      output_summary = snd (getSummaryMarkdownOutput status changesURL groupedResults gists)\<rparr>"

definition githubNotification ::
  "world \<Rightarrow> int \<Rightarrow> string \<Rightarrow> ChangesURL \<Rightarrow> LHResultsByURL \<Rightarrow> Gist list \<Rightarrow> unit promise" where
  "githubNotification w status githubToken changesURL groupedResults gists =
     await
       (perform
          (ChecksCreateSuite githubToken (nth_opt (split_on CHR ''/'' (githubRepo w)) 0)
             (nth_opt (split_on CHR ''/'' (githubRepo w)) 1) (githubSHA w))
          (checks_createSuite w githubToken (nth_opt (split_on CHR ''/'' (githubRepo w)) 0)
             (nth_opt (split_on CHR ''/'' (githubRepo w)) 1) (githubSHA w)))
       (\<lambda>_.
     perform (ChecksCreate githubToken (checkBody w status changesURL groupedResults gists))
       (checks_create w githubToken (checkBody w status changesURL groupedResults gists)))"

subsection \<open>\<open>run\<close>\<close>

definition shouldRunOutput :: "input \<Rightarrow> int \<Rightarrow> bool" where
  "shouldRunOutput inp status =
     (logLevel inp = ''info'' \<or> (logLevel inp = ''error'' \<and> status \<noteq> 0))"

definition slackEnabled :: "input \<Rightarrow> bool" where
  "slackEnabled inp = (slackNotificationEnabled inp \<and> slackWebhookUrl inp \<noteq> [])"

definition githubEnabled :: "input \<Rightarrow> bool" where
  "githubEnabled inp = (githubNotificationEnabled inp \<and> applicationGithubToken inp \<noteq> [])"

text \<open>The first \<open>Promise.all\<close> of \<open>run\<close>, on its three members of different types.\<close>

definition gather ::
  "world \<Rightarrow> input \<Rightarrow> (LHResultsByURL \<times> ChangesURL \<times> Gist list) promise" where
  "gather w inp =
     (let grouped = getGroupedAssertionResultsByURL w;
          changes = getChangesUrl w (personalGithubToken inp);
          uploads = uploadResultsToGist w (personalGithubToken inp)
      in (fst grouped @ fst changes @ fst uploads,
          case snd grouped of
            Inl e \<Rightarrow> Inl e
          | Inr groupedResults \<Rightarrow>
              (case snd changes of
                 Inl e \<Rightarrow> Inl e
               | Inr changesURL \<Rightarrow>
                   (case snd uploads of
                      Inl e \<Rightarrow> Inl e
                    | Inr gists \<Rightarrow> Inr (groupedResults, changesURL, gists)))))"

text \<open>The dispatch to the enabled channels, once the three members have resolved.\<close>

definition dispatch ::
  "world \<Rightarrow> input \<Rightarrow> int \<Rightarrow> LHResultsByURL \<Rightarrow> ChangesURL \<Rightarrow> Gist list \<Rightarrow> unit promise" where
  "dispatch w inp status groupedResults changesURL gists =
     (if githubEnabled inp \<and> slackEnabled inp then
        await
          (promise_all
             [slackNotification w status (slackWebhookUrl inp) changesURL groupedResults gists,
              githubNotification w status (applicationGithubToken inp) changesURL groupedResults gists])
          (\<lambda>_. resolve ())
      else if githubEnabled inp then
        githubNotification w status (applicationGithubToken inp) changesURL groupedResults gists
      else if slackEnabled inp then
        slackNotification w status (slackWebhookUrl inp) changesURL groupedResults gists
      else resolve ())"

text \<open>The \<open>catch\<close> of \<open>run\<close> logs and throws again, so a rejection stays a rejection.\<close>

definition run :: "world \<Rightarrow> input \<Rightarrow> int \<Rightarrow> unit promise" where
  "run w inp status =
     (if \<not> shouldRunOutput inp status then resolve ()
      else
        await (gather w inp) (\<lambda>(groupedResults, changesURL, gists).
        dispatch w inp status groupedResults changesURL gists))"

text \<open>The calls that go to a notification channel.\<close>

definition is_channel_call :: "call \<Rightarrow> bool" where
  "is_channel_call c =
     (case c of
        WebhookSend _ _ \<Rightarrow> True
      | ChecksCreateSuite _ _ _ _ \<Rightarrow> True
      | ChecksCreate _ _ \<Rightarrow> True
      | _ \<Rightarrow> False)"

section \<open>Example inputs\<close>

text \<open>
  One repository at one commit, with an assertion-results file of three failed audits of
  one URL, one raw result of that URL in the directory listing, a content store that already
  holds the archive of that URL, and an open pull request at the commit.
\<close>

definition demo_lhr :: string where
  \<open>demo_lhr = ''{"requestedUrl":"https://example.com/"}''\<close>

definition demo_result :: "string \<Rightarrow> LHResult" where
  "demo_result audit =
     \<lparr>auditId = audit, auditProperty = ''maxNumericValue'', auditTitle = ''First Contentful Paint'',
      expected = ''0.5'', operator = ''<='', actual = ''0.8'', url = ''https://example.com/''\<rparr>"

definition demo_groups :: "LHResult list list" where
  "demo_groups =
     [[demo_result ''first-contentful-paint'', demo_result ''interactive'', demo_result ''speed-index''],
      []]"


definition demo_world :: world where
  "demo_world =
     \<lparr>githubRepo = ''octo/site'',
      githubSHA = ''abc123'',
      cwd = ''/work'',
      existsSync = (\<lambda>path. path = ''/work/.lighthouseci/assertion-results.json''),
      readFile = (\<lambda>path.
        if path = ''/work/.lighthouseci/assertion-results.json'' then Inr ''[3 results]''
        else if path = ''/work/.lighthouseci/lhr-1.json'' then Inr demo_lhr
        else if path = ''/work/.lighthouseci/lhr-2.json'' then Inr ''{''
        else if path = ''/work/.lighthouseci/lhr-3.json'' then Inr ''{}''
        else Inl FsError),
      readdirSync = (\<lambda>path.
        if path = ''/work/.lighthouseci'' then Inr [''assertion-results.json'', ''lhr-1.json'']
        else Inl FsError),
      parse_results = (\<lambda>s.
        if s = ''[3 results]''
        then Inr [demo_result ''first-contentful-paint'', demo_result ''interactive'',
                  demo_result ''speed-index'']
        else Inl JsonSyntaxError),
      parse_json = (\<lambda>s.
        if s = demo_lhr then Inr (JObject [(''requestedUrl'', JString ''https://example.com/'')])
        else if s = ''{}'' then Inr (JObject [])
        else Inl JsonSyntaxError),
      gists_list = (\<lambda>token.
        Inr [\<lparr>entry_id = ''g0'', files = [''notes.txt'']\<rparr>,
             \<lparr>entry_id = ''g1'', files = [''lhci-action-lhr-octo-site-example.com-.json'']\<rparr>]),
      gists_update = (\<lambda>token gid file content.
        Inr \<lparr>data_id = Some gid,
             data_history = [\<lparr>version = Some ''v2''\<rparr>, \<lparr>version = Some ''v1''\<rparr>]\<rparr>),
      gists_create = (\<lambda>token file content.
        Inr \<lparr>data_id = Some ''g2'', data_history = [\<lparr>version = Some ''v1''\<rparr>]\<rparr>),
      pulls_list = (\<lambda>token ow re.
        Inr [\<lparr>head_sha = ''fff000'', html_url = Some ''https://github.com/octo/site/pull/6''\<rparr>,
             \<lparr>head_sha = ''abc123'', html_url = Some ''https://github.com/octo/site/pull/7''\<rparr>]),
      webhook_send = (\<lambda>hook atts. Inr ()),
      checks_createSuite = (\<lambda>token ow re commit. Inr ()),
      checks_create = (\<lambda>token body. Inr ())\<rparr>"

text \<open>The same world with an empty content store.\<close>

definition fresh_store_world :: world where
  "fresh_store_world = demo_world\<lparr>gists_list := (\<lambda>token. Inr [])\<rparr>"



text \<open>The same world with an assertion-results file that is not valid JSON.\<close>

definition broken_results_world :: world where
  "broken_results_world = demo_world\<lparr>parse_results := (\<lambda>s. Inl JsonSyntaxError)\<rparr>"

text \<open>The same world without the assertion-results file, and that world when the
  pull-request listing cannot be reached.\<close>

definition no_results_world :: world where
  "no_results_world = demo_world\<lparr>existsSync := (\<lambda>path. False)\<rparr>"

definition no_results_offline_world :: world where
  "no_results_offline_world =
     demo_world\<lparr>existsSync := (\<lambda>path. False), pulls_list := (\<lambda>token ow re. Inl RequestError)\<rparr>"

text \<open>No channel enabled: only-on-failure reporting, without and with the archiving
  credential, and full reporting with the archiving credential.\<close>

definition quiet_input :: input where
  "quiet_input =
     \<lparr>slackWebhookUrl = [], applicationGithubToken = [], personalGithubToken = [],
      githubNotificationEnabled = False, slackNotificationEnabled = False, logLevel = ''error''\<rparr>"

definition quiet_archive_input :: input where
  "quiet_archive_input =
     \<lparr>slackWebhookUrl = [], applicationGithubToken = [], personalGithubToken = ''tok'',
      githubNotificationEnabled = False, slackNotificationEnabled = False, logLevel = ''error''\<rparr>"

definition archive_input :: input where
  "archive_input =
     \<lparr>slackWebhookUrl = [], applicationGithubToken = [], personalGithubToken = ''tok'',
      githubNotificationEnabled = False, slackNotificationEnabled = False, logLevel = ''info''\<rparr>"

text \<open>The results of one URL form a well-formed grouping when every group is non-empty
  and holds results of its key only.\<close>

definition well_grouped :: "LHResultsByURL \<Rightarrow> bool" where
  "well_grouped acc = (\<forall>k g. (k, g) \<in> set acc \<longrightarrow> g \<noteq> [] \<and> (\<forall>r \<in> set g. url r = k))"

section \<open>Properties of the runtime functions\<close>

lemma split_on_not_Nil: "split_on c s \<noteq> []"
  by (induction s) (auto split: list.splits)

lemma split_on_no_sep: "c \<notin> set s \<Longrightarrow> split_on c s = [s]"
  by (induction s) auto

lemma join_split_on: "join_with [c] (split_on c s) = s"
proof (induction s)
  case Nil
  then show ?case by simp
next
  case (Cons x xs)
  obtain p ps where sp: "split_on c xs = p # ps"
    using split_on_not_Nil [of c xs] by (cases "split_on c xs") auto
  with Cons show ?case by (cases ps) auto
qed




lemma starts_with_append: "starts_with p (p @ s)"
  by (induction p) simp_all

lemma string_includes_append: "string_includes p (a @ p @ b)"
proof (induction a)
  case Nil
  show ?case
    using starts_with_append [of p b] by (cases "p @ b") auto
next
  case (Cons x a)
  then show ?case by simp
qed

section \<open>Properties of promises\<close>

lemma await_Inl [simp]: "await (t, Inl e) rest = (t, Inl e)"
  by (simp add: await_def)

lemma await_Inr [simp]: "await (t, Inr x) rest = (t @ fst (rest x), snd (rest x))"
  by (simp add: await_def split: prod.splits)

lemma fst_await: "fst (await m rest) = fst m @ (case snd m of Inl e \<Rightarrow> [] | Inr x \<Rightarrow> fst (rest x))"
  by (cases m) (auto split: sum.splits)

lemma snd_await: "snd (await m rest) = (case snd m of Inl e \<Rightarrow> Inl e | Inr x \<Rightarrow> snd (rest x))"
  by (cases m) (auto split: sum.splits)

lemmas promise_defs = resolve_def perform_def pure_step_def pReadFile_def

lemma fst_promise_all: "fst (promise_all ms) = concat (map fst ms)"
  by (induction ms) (auto split: prod.splits)



section \<open>Properties of the formatter\<close>

lemma foldl_push:
  "foldl (\<lambda>acc g. acc @ [f g, h g]) acc gs = acc @ concat (map (\<lambda>g. [f g, h g]) gs)"
  by (induction gs arbitrary: acc) simp_all

lemma formatAssertResults_concat:
  "formatAssertResults groups status gists =
     concat (map (\<lambda>g. [groupSection status g, groupReportUrlField status gists g]) groups)"
  by (simp add: formatAssertResults_def foldl_push)

lemma length_formatAssertResults:
  "length (formatAssertResults groups status gists) = 2 * length groups"
  by (induction groups) (simp_all add: formatAssertResults_concat)

lemma concat_pairs_nth:
  "i < length gs \<Longrightarrow>
     concat (map (\<lambda>g. [f g, h g]) gs) ! (2 * i) = f (gs ! i) \<and>
     concat (map (\<lambda>g. [f g, h g]) gs) ! (2 * i + 1) = h (gs ! i)"
proof (induction gs arbitrary: i)
  case Nil
  then show ?case by simp
next
  case (Cons g gs)
  show ?case
  proof (cases i)
    case 0
    then show ?thesis by simp
  next
    case (Suc j)
    with Cons.prems have "j < length gs" by simp
    from Cons.IH [OF this] Suc show ?thesis by simp
  qed
qed

text \<open>Group \<open>i\<close> is rendered at positions \<open>2 i\<close> (its section) and \<open>2 i + 1\<close> (its link).\<close>

lemma formatAssertResults_nth:
  assumes "i < length groups"
  shows "formatAssertResults groups status gists ! (2 * i) = groupSection status (groups ! i)"
    and "formatAssertResults groups status gists ! (2 * i + 1) =
           groupReportUrlField status gists (groups ! i)"
  using concat_pairs_nth [OF assms, of "groupSection status" "groupReportUrlField status gists"]
  by (simp_all add: formatAssertResults_concat)

lemma resultField_not_ellipsis: "resultField res \<noteq> ellipsisField"
  by (simp add: resultField_def ellipsisField_def)

lemma count_ellipsis_results: "count_list (map resultField rs) ellipsisField = 0"
  by (induction rs) (simp_all add: resultField_not_ellipsis)

lemma groupFields_shape:
  "groupFields g = take 2 (map resultField g) @ (if g = [] then [] else [ellipsisField])"
  by (cases g) (simp_all add: groupFields_def Let_def)


text \<open>The two phrases the field value can embed.\<close>

lemma resultField_greater_than:
  assumes "operator res \<noteq> ''<=''"
  shows "string_includes ''greater than'' (value' (resultField res))"
proof -
  from assms have "value' (resultField res) =
      (auditTitle res @ '' \<newline> _Expected '' @ expected res @ ''  '') @ ''greater than''
        @ ('' actual '' @ actual res @ ''_'')"
    by (simp add: resultField_def)
  then show ?thesis
    by (simp only: string_includes_append)
qed

lemma resultField_less_then:
  assumes "operator res = ''<=''"
  shows "string_includes ''less then'' (value' (resultField res))"
proof -
  from assms have "value' (resultField res) =
      (auditTitle res @ '' \<newline> _Expected '' @ expected res @ ''  '') @ ''less then''
        @ ('' actual '' @ actual res @ ''_'')"
    by (simp add: resultField_def)
  then show ?thesis
    by (simp only: string_includes_append)
qed

text \<open>\<open>groupBy\<close> builds non-empty groups of results of one URL, so the URL in a headline is
  the key of the group.\<close>

lemma groupBy_step_inv: "well_grouped acc \<Longrightarrow> well_grouped (groupBy_step acc r)"
  unfolding well_grouped_def groupBy_step_def
  by (fastforce split: option.splits if_splits)

lemma foldl_groupBy_inv: "well_grouped acc \<Longrightarrow> well_grouped (foldl groupBy_step acc rs)"
  by (induction rs arbitrary: acc) (simp_all add: groupBy_step_inv)

lemma groupBy_resultUrl: "(k, g) \<in> set (groupBy rs) \<Longrightarrow> g \<noteq> [] \<and> resultUrl g = k"
  using foldl_groupBy_inv [of "[]" rs]
  by (cases g) (auto simp: groupBy_def resultUrl_def well_grouped_def)

section \<open>Properties of the archiver, the resolver and the dispatcher\<close>

lemma existingGist_Some:
  "existingGist n gists = Some g \<Longrightarrow> g \<in> set gists \<and> n \<in> set (files g)"
  by (auto simp: existingGist_def find_Some_iff filter_empty_conv)

lemma existingGist_None:
  "existingGist n gists = None \<longleftrightarrow> (\<forall>g \<in> set gists. n \<notin> set (files g))"
  by (auto simp: existingGist_def find_None_iff filter_empty_conv)







lemma fst_getChangesUrl_token:
  "githubToken \<noteq> [] \<Longrightarrow>
     fst (getChangesUrl w githubToken) =
       [PullsList githubToken (nth_opt (split_on CHR ''/'' (githubRepo w)) 0)
          (nth_opt (split_on CHR ''/'' (githubRepo w)) 1)]"
  by (simp add: getChangesUrl_def promise_defs fst_await split: sum.splits)

lemma grouped_absent:
  "\<not> existsSync w (lhAssertResultsPath w) \<Longrightarrow>
     getGroupedAssertionResultsByURL w = ([ExistsSync (lhAssertResultsPath w)], Inr [])"
  by (simp add: getGroupedAssertionResultsByURL_def perform_def)

lemma fst_gather:
  "fst (gather w inp) = fst (getGroupedAssertionResultsByURL w)
     @ fst (getChangesUrl w (personalGithubToken inp))
     @ fst (uploadResultsToGist w (personalGithubToken inp))"
  by (simp add: gather_def Let_def)


lemma run_closed: "\<not> shouldRunOutput inp status \<Longrightarrow> run w inp status = ([], Inr ())"
  by (simp add: run_def resolve_def)

lemma snd_run_open:
  "shouldRunOutput inp status \<Longrightarrow>
     snd (run w inp status) =
       (case snd (gather w inp) of
          Inl e \<Rightarrow> Inl e
        | Inr (g, c, gs) \<Rightarrow> snd (dispatch w inp status g c gs))"
  by (simp add: run_def snd_await split: sum.splits prod.splits)

lemma fst_run_open:
  "shouldRunOutput inp status \<Longrightarrow>
     fst (run w inp status) =
       fst (gather w inp) @
       (case snd (gather w inp) of
          Inl e \<Rightarrow> []
        | Inr (g, c, gs) \<Rightarrow> fst (dispatch w inp status g c gs))"
  by (simp add: run_def fst_await split: sum.splits prod.splits)

lemma dispatch_disabled:
  "\<not> slackEnabled inp \<Longrightarrow> \<not> githubEnabled inp \<Longrightarrow> dispatch w inp status g c gs = ([], Inr ())"
  by (simp add: dispatch_def resolve_def)

text \<open>The three gathering operations never call a notification channel.\<close>

lemma not_channel_call [simp]:
  "\<not> is_channel_call (ExistsSync p)"
  "\<not> is_channel_call (ReadFile p)"
  "\<not> is_channel_call (ReaddirSync p)"
  "\<not> is_channel_call (GistsList t)"
  "\<not> is_channel_call (GistsUpdate t i n c)"
  "\<not> is_channel_call (GistsCreate t n c)"
  "\<not> is_channel_call (PullsList t ow re)"
  by (simp_all add: is_channel_call_def)

lemma grouped_no_channel:
  "c \<in> set (fst (getGroupedAssertionResultsByURL w)) \<Longrightarrow> \<not> is_channel_call c"
  by (auto simp: getGroupedAssertionResultsByURL_def promise_defs fst_await snd_await
      split: if_splits sum.splits)

lemma changes_no_channel: "c \<in> set (fst (getChangesUrl w t)) \<Longrightarrow> \<not> is_channel_call c"
  by (auto simp: getChangesUrl_def promise_defs fst_await snd_await split: if_splits sum.splits)

lemma upload_no_channel: "c \<in> set (fst (uploadResultToGist w t n)) \<Longrightarrow> \<not> is_channel_call c"
  by (auto simp: uploadResultToGist_def promise_defs fst_await snd_await
      split: if_splits sum.splits option.splits)

lemma uploads_no_channel: "c \<in> set (fst (uploadResultsToGist w t)) \<Longrightarrow> \<not> is_channel_call c"
  by (auto simp: uploadResultsToGist_def promise_defs fst_await snd_await fst_promise_all
      split: if_splits sum.splits dest: upload_no_channel)

lemma gather_no_channel: "c \<in> set (fst (gather w inp)) \<Longrightarrow> \<not> is_channel_call c"
  by (auto simp: fst_gather dest: grouped_no_channel changes_no_channel uploads_no_channel)

section \<open>The example inputs, evaluated\<close>

lemma demo_gistName:
  "gistName ''octo/site'' ''https://example.com/'' = ''lhci-action-lhr-octo-site-example.com-.json''"
  by code_simp

lemma demo_upload:
  "uploadResultToGist demo_world ''tok'' ''lhr-1.json'' =
     ([ReadFile ''/work/.lighthouseci/lhr-1.json'', GistsList ''tok'',
       GistsUpdate ''tok'' ''g1'' ''lhci-action-lhr-octo-site-example.com-.json'' demo_lhr],
      Inr (GistRef ''https://example.com/'' [''g1''] ''v2''))"
  by code_simp

lemma fresh_upload:
  "uploadResultToGist fresh_store_world ''tok'' ''lhr-1.json'' =
     ([ReadFile ''/work/.lighthouseci/lhr-1.json'', GistsList ''tok'',
       GistsCreate ''tok'' ''lhci-action-lhr-octo-site-example.com-.json'' demo_lhr],
      Inr (GistRef ''https://example.com/'' [''g2''] ''v1''))"
  by code_simp



lemma demo_uploads:
  "uploadResultsToGist demo_world ''tok'' =
     ([ReaddirSync ''/work/.lighthouseci'',
       ReadFile ''/work/.lighthouseci/lhr-1.json'', GistsList ''tok'',
       GistsUpdate ''tok'' ''g1'' ''lhci-action-lhr-octo-site-example.com-.json'' demo_lhr],
      Inr [GistRef ''https://example.com/'' [''g1''] ''v2''])"
  by code_simp



lemma quiet_run_success:
  "run demo_world quiet_input 0 = ([], Inr ())"
  by code_simp

lemma quiet_run_failure:
  "run demo_world quiet_input 1 =
     ([ExistsSync ''/work/.lighthouseci/assertion-results.json'',
       ReadFile ''/work/.lighthouseci/assertion-results.json''], Inr ())"
  by code_simp

lemma broken_results_run:
  "run broken_results_world quiet_input 1 =
     ([ExistsSync ''/work/.lighthouseci/assertion-results.json'',
       ReadFile ''/work/.lighthouseci/assertion-results.json''], Inl JsonSyntaxError)"
  by code_simp


lemma no_results_run:
  "run no_results_world archive_input 1 =
     ([ExistsSync ''/work/.lighthouseci/assertion-results.json'',
       PullsList ''tok'' (Some ''octo'') (Some ''site''),
       ReaddirSync ''/work/.lighthouseci'',
       ReadFile ''/work/.lighthouseci/lhr-1.json'', GistsList ''tok'',
       GistsUpdate ''tok'' ''g1'' ''lhci-action-lhr-octo-site-example.com-.json'' demo_lhr],
      Inr ())"
  by code_simp

lemma offline_run:
  "run no_results_offline_world archive_input 1 =
     ([ExistsSync ''/work/.lighthouseci/assertion-results.json'',
       PullsList ''tok'' (Some ''octo'') (Some ''site''),
       ReaddirSync ''/work/.lighthouseci'',
       ReadFile ''/work/.lighthouseci/lhr-1.json'', GistsList ''tok'',
       GistsUpdate ''tok'' ''g1'' ''lhci-action-lhr-octo-site-example.com-.json'' demo_lhr],
      Inl RequestError)"
  by code_simp

lemma closed_run:
  "run no_results_world quiet_archive_input 0 = ([], Inr ())"
  by code_simp

lemma no_results_changes:
  "fst (getChangesUrl no_results_world ''tok'') = [PullsList ''tok'' (Some ''octo'') (Some ''site'')]"
  by code_simp


section \<open>The claims\<close>

subsection \<open>C1: update an existing archive entry, create one otherwise\<close>

text \<open>
  Claim C1. When \<open>uploadResultToGist\<close> has read and parsed a raw result file and listed the
  entries of the content store: if some listed entry holds a file with the derived archive
  name, the only call that writes to the store is \<open>update\<close>, with the id of the first such
  entry, and \<open>create\<close> is not called; if no listed entry holds that name, the call is
  \<open>create\<close>. The name depends on the repository and the inspected URL only, so a later run
  on the same pair that finds the entry updates it.
\<close>

theorem uploadResultToGist_update_or_create:
  assumes "githubToken \<noteq> []" and "resultPath \<noteq> []"
    and "readFile w (path_join (resultsDirPath w) resultPath) = Inr buf"
    and "parse_json w buf = Inr results"
    and "get_requestedUrl results = JString u"
    and "gists_list w githubToken = Inr gists"
  shows "((\<exists>g \<in> set gists. gistName (githubRepo w) u \<in> set (files g)) \<longrightarrow>
           (\<exists>g. existingGist (gistName (githubRepo w) u) gists = Some g
              \<and> g \<in> set gists \<and> gistName (githubRepo w) u \<in> set (files g)
              \<and> fst (uploadResultToGist w githubToken resultPath) =
                  [ReadFile (path_join (resultsDirPath w) resultPath), GistsList githubToken,
                   GistsUpdate githubToken (entry_id g) (gistName (githubRepo w) u) buf]))
       \<and> (\<not> (\<exists>g \<in> set gists. gistName (githubRepo w) u \<in> set (files g)) \<longrightarrow>
            fst (uploadResultToGist w githubToken resultPath) =
              [ReadFile (path_join (resultsDirPath w) resultPath), GistsList githubToken,
               GistsCreate githubToken (gistName (githubRepo w) u) buf])"
proof (cases "existingGist (gistName (githubRepo w) u) gists")
  case None
  then have "\<not> (\<exists>g \<in> set gists. gistName (githubRepo w) u \<in> set (files g))"
    by (simp add: existingGist_None)
  moreover have "fst (uploadResultToGist w githubToken resultPath) =
              [ReadFile (path_join (resultsDirPath w) resultPath), GistsList githubToken,
               GistsCreate githubToken (gistName (githubRepo w) u) buf]"
    using assms None
    by (simp add: uploadResultToGist_def promise_defs string_receiver_def fst_await snd_await
        split: sum.splits)
  ultimately show ?thesis by blast
next
  case (Some g)
  note mem = existingGist_Some [OF Some]
  have "fst (uploadResultToGist w githubToken resultPath) =
                  [ReadFile (path_join (resultsDirPath w) resultPath), GistsList githubToken,
                   GistsUpdate githubToken (entry_id g) (gistName (githubRepo w) u) buf]"
    using assms Some
    by (simp add: uploadResultToGist_def promise_defs string_receiver_def fst_await snd_await
        split: sum.splits)
  with mem Some show ?thesis by blast
qed

text \<open>
  On the example: the store that holds the archive of the URL is updated at entry \<open>g1\<close>;
  the empty store gets a new entry.
\<close>

theorem uploadResultToGist_update_or_create_witness:
  "fst (uploadResultToGist demo_world ''tok'' ''lhr-1.json'') =
     [ReadFile ''/work/.lighthouseci/lhr-1.json'', GistsList ''tok'',
      GistsUpdate ''tok'' ''g1'' ''lhci-action-lhr-octo-site-example.com-.json'' demo_lhr]
   \<and> fst (uploadResultToGist fresh_store_world ''tok'' ''lhr-1.json'') =
     [ReadFile ''/work/.lighthouseci/lhr-1.json'', GistsList ''tok'',
      GistsCreate ''tok'' ''lhci-action-lhr-octo-site-example.com-.json'' demo_lhr]"
proof -
  let ?doc = "JObject [(''requestedUrl'', JString ''https://example.com/'')]"
  let ?stored =
    "[\<lparr>entry_id = ''g0'', files = [''notes.txt'']\<rparr>,
      \<lparr>entry_id = ''g1'', files = [''lhci-action-lhr-octo-site-example.com-.json'']\<rparr>]"
  have tok: "''tok'' \<noteq> []" and path: "''lhr-1.json'' \<noteq> []"
    by simp_all
  have u: "get_requestedUrl ?doc = JString ''https://example.com/''"
    by code_simp
  have read: "readFile demo_world (path_join (resultsDirPath demo_world) ''lhr-1.json'') = Inr demo_lhr"
    and parse: "parse_json demo_world demo_lhr = Inr ?doc"
    and list: "gists_list demo_world ''tok'' = Inr ?stored"
    by code_simp+
  have read': "readFile fresh_store_world (path_join (resultsDirPath fresh_store_world) ''lhr-1.json'')
      = Inr demo_lhr"
    and parse': "parse_json fresh_store_world demo_lhr = Inr ?doc"
    and list': "gists_list fresh_store_world ''tok'' = Inr []"
    by code_simp+
  have repo: "githubRepo demo_world = ''octo/site''" "githubRepo fresh_store_world = ''octo/site''"
    and dir: "path_join (resultsDirPath demo_world) ''lhr-1.json'' = ''/work/.lighthouseci/lhr-1.json''"
      "path_join (resultsDirPath fresh_store_world) ''lhr-1.json'' = ''/work/.lighthouseci/lhr-1.json''"
    by code_simp+
  have found: "existingGist ''lhci-action-lhr-octo-site-example.com-.json'' ?stored
      = Some \<lparr>entry_id = ''g1'', files = [''lhci-action-lhr-octo-site-example.com-.json'']\<rparr>"
    by code_simp
  from uploadResultToGist_update_or_create [OF tok path read parse u list]
    uploadResultToGist_update_or_create [OF tok path read' parse' u list']
  show ?thesis
    by (simp add: repo dir demo_gistName found)
qed

subsection \<open>C2: two fields at most, and one ellipsis\<close>

text \<open>
  Claim C2. For every URL group passed to \<open>formatAssertResults\<close>, the fields of its section
  are the first two rendered results (as many as the group has, at most two) followed by
  exactly one ellipsis field when the group is not empty, whether or not it has more than
  two results; an empty group has no field and no ellipsis.
\<close>

theorem formatAssertResults_fields:
  assumes "i < length groups"
  shows "\<exists>t c fs. formatAssertResults groups status gists ! (2 * i) = Section t c fs
     \<and> length fs = min 2 (length (groups ! i)) + (if length (groups ! i) > 0 then 1 else 0)
     \<and> count_list fs ellipsisField = (if length (groups ! i) > 0 then 1 else 0)
     \<and> (if length (groups ! i) > 0
         then last fs = ellipsisField \<and> butlast fs = take 2 (map resultField (groups ! i))
         else fs = [])"
proof -
  let ?g = "groups ! i"
  have cnt: "count_list (take 2 (map resultField ?g)) ellipsisField = 0"
    by (metis count_ellipsis_results take_map)
  show ?thesis
    using formatAssertResults_nth(1) [OF assms, of status gists] cnt
    by (simp add: groupSection_def groupFields_shape min_def)
qed

text \<open>On the example: the group of three results has three fields, the empty group none.\<close>

theorem formatAssertResults_fields_witness:
  "length (section_fields (formatAssertResults demo_groups 1 [] ! 0)) = 3
   \<and> last (section_fields (formatAssertResults demo_groups 1 [] ! 0)) = ellipsisField
   \<and> section_fields (formatAssertResults demo_groups 1 [] ! 2) = []"
proof -
  have len: "0 < length demo_groups" "1 < length demo_groups"
    by (simp_all add: demo_groups_def)
  from formatAssertResults_fields [OF len(1), of 1 "[]"]
    formatAssertResults_fields [OF len(2), of 1 "[]"]
  show ?thesis
    by (auto simp: demo_groups_def)
qed

subsection \<open>C3: the headline counts one more than the group holds\<close>



subsection \<open>C4: a failed upload of one file\<close>




subsection \<open>C5: the links of a change reference\<close>




subsection \<open>C6: the gate of \<open>run\<close>\<close>

text \<open>
  Claim C6, as the spec states it, ends: for every non-zero status with log level
  \<open>error\<close> and both channels disabled, \<open>run\<close> resolves. There the gate is open, the three
  gathering operations run, and \<open>run\<close> rejects when one of them does: here the
  assertion-results file is not valid JSON.
\<close>

theorem run_error_level_rejects:
  "logLevel quiet_input = ''error'' \<and> \<not> slackEnabled quiet_input \<and> \<not> githubEnabled quiet_input
   \<and> snd (run broken_results_world quiet_input 1) = Inl JsonSyntaxError"
proof -
  have "logLevel quiet_input = ''error''" "\<not> slackEnabled quiet_input" "\<not> githubEnabled quiet_input"
    by code_simp+
  then show ?thesis
    by (simp add: broken_results_run)
qed

text \<open>
  Claim C6, amended. Unless the log level is \<open>info\<close>, or it is \<open>error\<close> and the status is
  non-zero, \<open>run\<close> makes no call at all and resolves. For a non-zero status with log level
  \<open>error\<close> and both channels disabled, \<open>run\<close> calls no channel adapter, and it resolves
  exactly when the three gathering operations do (it rejects with their error otherwise).
\<close>

theorem run_gate:
  "(\<not> (logLevel inp = ''info'' \<or> (logLevel inp = ''error'' \<and> status \<noteq> 0)) \<longrightarrow>
      run w inp status = ([], Inr ()))
   \<and> (status \<noteq> 0 \<and> logLevel inp = ''error'' \<and> \<not> slackEnabled inp \<and> \<not> githubEnabled inp \<longrightarrow>
        (\<forall>c \<in> set (fst (run w inp status)). \<not> is_channel_call c)
        \<and> (snd (run w inp status) = Inr () \<longleftrightarrow>
             (\<exists>g. snd (getGroupedAssertionResultsByURL w) = Inr g)
             \<and> (\<exists>c. snd (getChangesUrl w (personalGithubToken inp)) = Inr c)
             \<and> (\<exists>gs. snd (uploadResultsToGist w (personalGithubToken inp)) = Inr gs)))"
proof (intro conjI impI)
  assume "\<not> (logLevel inp = ''info'' \<or> (logLevel inp = ''error'' \<and> status \<noteq> 0))"
  then show "run w inp status = ([], Inr ())"
    by (simp add: run_closed shouldRunOutput_def)
next
  assume a: "status \<noteq> 0 \<and> logLevel inp = ''error'' \<and> \<not> slackEnabled inp \<and> \<not> githubEnabled inp"
  then have opn: "shouldRunOutput inp status"
    by (simp add: shouldRunOutput_def)
  from a have off: "\<And>g c gs. dispatch w inp status g c gs = ([], Inr ())"
    by (simp add: dispatch_disabled)
  have "fst (run w inp status) = fst (gather w inp)"
    by (simp add: fst_run_open [OF opn] off split: sum.splits)
  then show "\<forall>c \<in> set (fst (run w inp status)). \<not> is_channel_call c"
    by (simp add: gather_no_channel)
next
  assume a: "status \<noteq> 0 \<and> logLevel inp = ''error'' \<and> \<not> slackEnabled inp \<and> \<not> githubEnabled inp"
  then have opn: "shouldRunOutput inp status"
    by (simp add: shouldRunOutput_def)
  from a have off: "\<And>g c gs. dispatch w inp status g c gs = ([], Inr ())"
    by (simp add: dispatch_disabled)
  show "snd (run w inp status) = Inr () \<longleftrightarrow>
             (\<exists>g. snd (getGroupedAssertionResultsByURL w) = Inr g)
             \<and> (\<exists>c. snd (getChangesUrl w (personalGithubToken inp)) = Inr c)
             \<and> (\<exists>gs. snd (uploadResultsToGist w (personalGithubToken inp)) = Inr gs)"
    by (auto simp: snd_run_open [OF opn] off gather_def Let_def split: sum.splits)
qed

text \<open>
  On the example with only-on-failure reporting: nothing happens on status 0; on status 1
  the results are read, no channel is called, and \<open>run\<close> resolves.
\<close>

theorem run_gate_witness:
  "run demo_world quiet_input 0 = ([], Inr ())
   \<and> list_all (\<lambda>c. \<not> is_channel_call c) (fst (run demo_world quiet_input 1))
   \<and> snd (run demo_world quiet_input 1) = Inr ()"
proof -
  have level: "logLevel quiet_input = ''error''"
    and off: "\<not> slackEnabled quiet_input" "\<not> githubEnabled quiet_input"
    by code_simp+
  have closed: "\<not> (logLevel quiet_input = ''info'' \<or> (logLevel quiet_input = ''error'' \<and> (0::int) \<noteq> 0))"
    by (simp add: level)
  have gathered: "\<exists>g. snd (getGroupedAssertionResultsByURL demo_world) = Inr g"
    "\<exists>c. snd (getChangesUrl demo_world (personalGithubToken quiet_input)) = Inr c"
    "\<exists>gs. snd (uploadResultsToGist demo_world (personalGithubToken quiet_input)) = Inr gs"
    by (simp_all add: getGroupedAssertionResultsByURL_def getChangesUrl_def uploadResultsToGist_def
        quiet_input_def demo_world_def promise_defs lhAssertResultsPath_def resultsDirPath_def
        path_join_def)
  from run_gate [of quiet_input 0 demo_world] run_gate [of quiet_input 1 demo_world]
  show ?thesis
    using level off closed gathered by (simp add: list_all_iff)
qed

subsection \<open>C7: no assertion-results file\<close>

text \<open>
  Claim C7, as the spec states it: when the assertion-results file does not exist, \<open>run\<close>
  still succeeds and still attempts change-reference resolution. With the file missing and
  the gate open, \<open>run\<close> rejects when the pull-request listing fails; with the file missing
  and the gate closed, \<open>run\<close> resolves without the call that the resolver makes with this
  credential.
\<close>

theorem run_without_results_file_rejects_or_skips:
  "\<not> existsSync no_results_offline_world (lhAssertResultsPath no_results_offline_world)
   \<and> snd (getGroupedAssertionResultsByURL no_results_offline_world) = Inr []
   \<and> snd (run no_results_offline_world archive_input 1) = Inl RequestError
   \<and> \<not> existsSync no_results_world (lhAssertResultsPath no_results_world)
   \<and> fst (getChangesUrl no_results_world (personalGithubToken quiet_archive_input)) =
       [PullsList ''tok'' (Some ''octo'') (Some ''site'')]
   \<and> run no_results_world quiet_archive_input 0 = ([], Inr ())"
proof -
  have "\<not> existsSync no_results_offline_world (lhAssertResultsPath no_results_offline_world)"
    "snd (getGroupedAssertionResultsByURL no_results_offline_world) = Inr []"
    "\<not> existsSync no_results_world (lhAssertResultsPath no_results_world)"
    "personalGithubToken quiet_archive_input = ''tok''"
    by code_simp+
  then show ?thesis
    by (simp add: offline_run closed_run no_results_changes)
qed

text \<open>
  Claim C7, amended. When the assertion-results file does not exist, loading the grouped
  results only tests for the file and returns the empty grouping, which renders to no
  section, rather than an error. When the gate of \<open>run\<close> is open, \<open>run\<close> still goes through
  change-reference resolution (its calls follow the test for the file, and with a credential
  the pull requests are listed), and it succeeds exactly when change-reference resolution,
  archiving and the dispatch to the enabled channels succeed.
\<close>

theorem run_without_results_file:
  assumes "\<not> existsSync w (lhAssertResultsPath w)"
  shows "getGroupedAssertionResultsByURL w = ([ExistsSync (lhAssertResultsPath w)], Inr [])
     \<and> formatAssertResults (object_values []) status gists = []
     \<and> (shouldRunOutput inp status \<longrightarrow>
          (\<exists>rest. fst (run w inp status) =
              ExistsSync (lhAssertResultsPath w) # fst (getChangesUrl w (personalGithubToken inp)) @ rest)
          \<and> (personalGithubToken inp \<noteq> [] \<longrightarrow>
               PullsList (personalGithubToken inp) (nth_opt (split_on CHR ''/'' (githubRepo w)) 0)
                 (nth_opt (split_on CHR ''/'' (githubRepo w)) 1) \<in> set (fst (run w inp status)))
          \<and> (snd (run w inp status) = Inr () \<longleftrightarrow>
               (\<exists>c gs. snd (getChangesUrl w (personalGithubToken inp)) = Inr c
                  \<and> snd (uploadResultsToGist w (personalGithubToken inp)) = Inr gs
                  \<and> snd (dispatch w inp status [] c gs) = Inr ())))"
proof (intro conjI impI)
  show g: "getGroupedAssertionResultsByURL w = ([ExistsSync (lhAssertResultsPath w)], Inr [])"
    using assms by (rule grouped_absent)
  show "formatAssertResults (object_values []) status gists = []"
    by (simp add: object_values_def formatAssertResults_def)
  assume opn: "shouldRunOutput inp status"
  have tr: "fst (run w inp status) =
      ExistsSync (lhAssertResultsPath w) # fst (getChangesUrl w (personalGithubToken inp))
        @ (fst (uploadResultsToGist w (personalGithubToken inp))
           @ (case snd (gather w inp) of
                Inl e \<Rightarrow> []
              | Inr (g, c, gs) \<Rightarrow> fst (dispatch w inp status g c gs)))"
    by (simp add: fst_run_open [OF opn] fst_gather g)
  then show "\<exists>rest. fst (run w inp status) =
      ExistsSync (lhAssertResultsPath w) # fst (getChangesUrl w (personalGithubToken inp)) @ rest"
    by blast
  show "snd (run w inp status) = Inr () \<longleftrightarrow>
      (\<exists>c gs. snd (getChangesUrl w (personalGithubToken inp)) = Inr c
         \<and> snd (uploadResultsToGist w (personalGithubToken inp)) = Inr gs
         \<and> snd (dispatch w inp status [] c gs) = Inr ())"
    by (auto simp: snd_run_open [OF opn] gather_def Let_def g split: sum.splits)
  assume "personalGithubToken inp \<noteq> []"
  then show "PullsList (personalGithubToken inp) (nth_opt (split_on CHR ''/'' (githubRepo w)) 0)
      (nth_opt (split_on CHR ''/'' (githubRepo w)) 1) \<in> set (fst (run w inp status))"
    by (simp add: tr fst_getChangesUrl_token)
qed

text \<open>
  On the example without the file, with the archiving credential: the pull requests are
  listed, the raw result is archived, and \<open>run\<close> resolves.
\<close>

theorem run_without_results_file_witness:
  "\<not> existsSync no_results_world (lhAssertResultsPath no_results_world)
   \<and> shouldRunOutput archive_input 1
   \<and> getGroupedAssertionResultsByURL no_results_world =
       ([ExistsSync ''/work/.lighthouseci/assertion-results.json''], Inr [])
   \<and> PullsList ''tok'' (Some ''octo'') (Some ''site'') \<in> set (fst (run no_results_world archive_input 1))
   \<and> snd (run no_results_world archive_input 1) = Inr ()"
proof -
  have absent: "\<not> existsSync no_results_world (lhAssertResultsPath no_results_world)"
    and gate: "shouldRunOutput archive_input 1"
    and cred: "personalGithubToken archive_input = ''tok''"
    and path: "lhAssertResultsPath no_results_world = ''/work/.lighthouseci/assertion-results.json''"
    and repo: "nth_opt (split_on CHR ''/'' (githubRepo no_results_world)) 0 = Some ''octo''"
      "nth_opt (split_on CHR ''/'' (githubRepo no_results_world)) 1 = Some ''site''"
    by code_simp+
  note inst = run_without_results_file [OF absent, of 1 "[]" archive_input]
  from inst have "getGroupedAssertionResultsByURL no_results_world =
      ([ExistsSync (lhAssertResultsPath no_results_world)], Inr [])"
    by (rule conjunct1)
  then have grouped: "getGroupedAssertionResultsByURL no_results_world =
      ([ExistsSync ''/work/.lighthouseci/assertion-results.json''], Inr [])"
    by (simp only: path)
  from inst gate have "personalGithubToken archive_input \<noteq> [] \<longrightarrow>
      PullsList (personalGithubToken archive_input)
        (nth_opt (split_on CHR ''/'' (githubRepo no_results_world)) 0)
        (nth_opt (split_on CHR ''/'' (githubRepo no_results_world)) 1)
      \<in> set (fst (run no_results_world archive_input 1))"
    by blast
  then have listed: "PullsList ''tok'' (Some ''octo'') (Some ''site'')
      \<in> set (fst (run no_results_world archive_input 1))"
    unfolding cred repo by simp
  have "snd (run no_results_world archive_input 1) = Inr ()"
    by (simp add: no_results_run)
  with absent gate grouped listed show ?thesis
    by blast
qed

subsection \<open>C8: the phrase for the comparison operator\<close>

text \<open>
  Claim C8. The field value of a result embeds \<open>less than\<close> when its operator is \<open><=\<close> and
  \<open>greater than\<close> otherwise. The second half holds (\<open>resultField_greater_than\<close>); for the
  operator \<open><=\<close> the source writes \<open>less then\<close> (\<open>resultField_less_then\<close>), so the value of
  the example result does not contain \<open>less than\<close>.
\<close>

theorem resultField_lacks_less_than:
  "value' (resultField (demo_result ''first-contentful-paint'')) =
     ''First Contentful Paint \<newline> _Expected 0.5  less then actual 0.8_''
   \<and> \<not> string_includes ''less than'' (value' (resultField (demo_result ''first-contentful-paint'')))"
  by (simp add: resultField_def demo_result_def)

subsection \<open>C9: the report link of a group\<close>



subsection \<open>C10: the reference returned for an uploaded file\<close>

text \<open>
  Claim C10. When the upload of a raw result file succeeds, the last call is the update or
  the create of the store, and of its response the returned reference keeps, as \<open>id\<close>, the
  array obtained by splitting the id (the empty string when absent) on \<open>/\<close>, which has the
  id as its one element when the id holds no \<open>/\<close>, and, as \<open>sha\<close>, the version of the first
  history entry (the empty string when absent).
\<close>

theorem uploadResultToGist_reference:
  assumes "snd (uploadResultToGist w githubToken resultPath) = Inr g"
    and "githubToken \<noteq> []" and "resultPath \<noteq> []"
  shows "\<exists>resp.
           (case last (fst (uploadResultToGist w githubToken resultPath)) of
              GistsUpdate t i n c \<Rightarrow> gists_update w t i n c = Inr resp
            | GistsCreate t n c \<Rightarrow> gists_create w t n c = Inr resp
            | _ \<Rightarrow> False)
           \<and> gist_id g = split_on CHR ''/'' (case data_id resp of None \<Rightarrow> [] | Some i \<Rightarrow> i)
           \<and> (\<forall>i. data_id resp = Some i \<and> CHR ''/'' \<notin> set i \<longrightarrow> gist_id g = [i])
           \<and> gist_sha g =
               (case data_history resp of
                  [] \<Rightarrow> []
                | h # _ \<Rightarrow> (case version h of None \<Rightarrow> [] | Some v \<Rightarrow> v))"
  using assms
  by (auto simp: uploadResultToGist_def promise_defs fst_await snd_await split_on_no_sep
      split: sum.splits option.splits)

text \<open>On the example: the id \<open>g1\<close> comes back as the array of \<open>g1\<close>, with version \<open>v2\<close>.\<close>

theorem uploadResultToGist_reference_witness:
  "snd (uploadResultToGist demo_world ''tok'' ''lhr-1.json'') =
     Inr (GistRef ''https://example.com/'' [''g1''] ''v2'')
   \<and> split_on CHR ''/'' ''g1'' = [''g1'']"
proof -
  have res: "snd (uploadResultToGist demo_world ''tok'' ''lhr-1.json'') =
      Inr (GistRef ''https://example.com/'' [''g1''] ''v2'')"
    by (simp add: demo_upload)
  have resp: "gists_update demo_world ''tok'' ''g1'' ''lhci-action-lhr-octo-site-example.com-.json'' demo_lhr
      = Inr \<lparr>data_id = Some ''g1'',
             data_history = [\<lparr>version = Some ''v2''\<rparr>, \<lparr>version = Some ''v1''\<rparr>]\<rparr>"
    by code_simp
  have tok: "''tok'' \<noteq> []" and path: "''lhr-1.json'' \<noteq> []"
    by simp_all
  from uploadResultToGist_reference [OF res tok path] show ?thesis
    by (auto simp: demo_upload resp)
qed


end
